theory Spec2Isabelle
  imports Main "HOL-Library.Sublist"
begin

section \<open>The Telegram relay bot (\<^verbatim>\<open>bot.py\<close>): data model\<close>

text \<open>
  A stored turn is the Python tuple \<^verbatim>\<open>(role, content)\<close>; an API message is the dict
  \<^verbatim>\<open>{"role": ..., "content": ...}\<close>. Python \<^verbatim>\<open>str\<close> values are modelled as
  \<^typ>\<open>string\<close> (the UTF-8 bytes of the text), user ids as \<^typ>\<open>int\<close>.
\<close>

type_synonym turn = "string \<times> string"

record message =
  role :: string
  content :: string

text \<open>
  \<^verbatim>\<open>conversation_history: Dict[int, List[Tuple[str, str]]] = defaultdict(list)\<close>.
  A key that was never touched is absent; reading \<^verbatim>\<open>conversation_history[user_id]\<close>
  of an absent key stores an empty list under it and returns that list.
\<close>

type_synonym history_store = "int \<rightharpoonup> turn list"

definition MAX_HISTORY :: nat where
  "MAX_HISTORY = 10"

text \<open>Every exception of the program is caught by \<^verbatim>\<open>except Exception\<close> or propagates
  unchanged, so the model only distinguishes which external call raised.\<close>

datatype error =
  CompletionError
  | TranscriptionError
  | TelegramError
  | DownloadError
  | OSError

text \<open>What the bot hands to the messaging transport: \<^verbatim>\<open>reply_text\<close> and
  \<^verbatim>\<open>edit_text\<close> calls, in the order they are made.\<close>

datatype action = Reply string | Edit string

text \<open>
  The outside world during one handler run. The environment variable, the two strings
  that \<^verbatim>\<open>strftime\<close> yields for the current Pacific time, the name the operating system
  picks for the temporary file, and the answers of the external services: each call either
  raises or returns.
\<close>

record world =
  getenv_SYSTEM_PROMPT :: "string option"
  date_str :: string
  time_str :: string
  chat_completions_create :: "message list \<Rightarrow> error + string"
  audio_transcriptions_create :: "string \<Rightarrow> error + string"
  bot_get_file :: "string \<Rightarrow> error + string"
  download_to_drive :: "string \<Rightarrow> error + string"
  temp_file_name :: string
  telegram_send :: "action \<Rightarrow> error option"

text \<open>An inbound update: the sender, the text (text messages) and the file id of the
  voice note (voice messages).\<close>

record update =
  effective_user_id :: int
  msg_text :: string
  voice_file_id :: string

text \<open>
  The state a handler reads and writes: the global \<^verbatim>\<open>conversation_history\<close>, the files
  on disk (name to contents) and the log of calls made to the transport.
\<close>

record bot_state =
  conversation_history :: history_store
  files :: "string \<rightharpoonup> string"
  sent :: "action list"

definition initial_state :: bot_state where
  "initial_state = \<lparr>conversation_history = Map.empty, files = Map.empty, sent = []\<rparr>"

section \<open>The conversation store\<close>

text \<open>\<^verbatim>\<open>defaultdict.__getitem__\<close>: the list under the key and the store after the read.\<close>

definition getitem :: "history_store \<Rightarrow> int \<Rightarrow> turn list \<times> history_store" where
  "getitem h user_id =
     (case h user_id of
        None \<Rightarrow> ([], h(user_id \<mapsto> []))
      | Some xs \<Rightarrow> (xs, h))"

text \<open>What a reader of the store sees for a user (the spec's \<^verbatim>\<open>get(user_id)\<close>).\<close>

definition get_history :: "history_store \<Rightarrow> int \<Rightarrow> turn list" where
  "get_history h user_id = fst (getitem h user_id)"

text \<open>The slice \<^verbatim>\<open>xs[-n:]\<close> for \<open>n > 0\<close>: the last \<open>n\<close> elements, or all of a shorter list.\<close>

definition slice_last :: "nat \<Rightarrow> 'a list \<Rightarrow> 'a list" where
  "slice_last n xs = drop (length xs - n) xs"

text \<open>
  \<^verbatim>\<open>
  def update_conversation_history(user_id, role, content):
      conversation_history[user_id].append((role, content))
      if len(conversation_history[user_id]) > MAX_HISTORY:
          conversation_history[user_id] = conversation_history[user_id][-MAX_HISTORY:]
  \<close>
\<close>

definition update_conversation_history ::
  "int \<Rightarrow> string \<Rightarrow> string \<Rightarrow> history_store \<Rightarrow> history_store" where
  "update_conversation_history user_id r c h =
     (let (xs, h1) = getitem h user_id;
          h2 = h1(user_id \<mapsto> xs @ [(r, c)]);
          (ys, h3) = getitem h2 user_id
      in if length ys > MAX_HISTORY
         then (let (zs, h4) = getitem h3 user_id
               in h4(user_id \<mapsto> slice_last MAX_HISTORY zs))
         else h3)"

text \<open>\<^verbatim>\<open>conversation_history[user_id].clear()\<close>, as \<^verbatim>\<open>start\<close> and \<^verbatim>\<open>clear_history\<close>
  call it.\<close>

definition clear_user :: "int \<Rightarrow> history_store \<Rightarrow> history_store" where
  "clear_user user_id h = (let (xs, h1) = getitem h user_id in h1(user_id \<mapsto> []))"

text \<open>A run of appends to one user's history, oldest first.\<close>

fun append_all :: "int \<Rightarrow> turn list \<Rightarrow> history_store \<Rightarrow> history_store" where
  "append_all user_id [] h = h"
| "append_all user_id (t # ts) h =
     append_all user_id ts (update_conversation_history user_id (fst t) (snd t) h)"

section \<open>Prompt assembly\<close>

definition default_system_prompt :: string where
  "default_system_prompt = ''You are a helpful assistant.''"

text \<open>\<^verbatim>\<open>os.getenv('SYSTEM_PROMPT', 'You are a helpful assistant.')\<close>: the default is
  returned only when the variable is not set.\<close>

definition base_prompt :: "world \<Rightarrow> string" where
  "base_prompt w =
     (case getenv_SYSTEM_PROMPT w of None \<Rightarrow> default_system_prompt | Some p \<Rightarrow> p)"

definition time_aware_prompt :: "world \<Rightarrow> string" where
  "time_aware_prompt w =
     base_prompt w @ '' The current date is '' @ date_str w @ '' and the time is ''
       @ time_str w @ '' Pacific Time.''"

definition turn_message :: "turn \<Rightarrow> message" where
  "turn_message t = \<lparr>role = fst t, content = snd t\<rparr>"

text \<open>
  \<^verbatim>\<open>
  messages = [{"role": "system", "content": time_aware_prompt}]
  for role, content in conversation_history[user_id]:
      messages.append({"role": role, "content": content})
  messages.append({"role": "user", "content": new_message})
  return messages
  \<close>
  The read of \<^verbatim>\<open>conversation_history[user_id]\<close> goes through the defaultdict, so the
  function returns the store as well.
\<close>

definition build_messages ::
  "world \<Rightarrow> int \<Rightarrow> string \<Rightarrow> history_store \<Rightarrow> message list \<times> history_store" where
  "build_messages w user_id new_message h =
     (let messages = [\<lparr>role = ''system'', content = time_aware_prompt w\<rparr>];
          (xs, h1) = getitem h user_id;
          messages = messages @ map turn_message xs;
          messages = messages @ [\<lparr>role = ''user'', content = new_message\<rparr>]
      in (messages, h1))"

section \<open>The handlers\<close>

text \<open>
  A handler step returns what the Python call returns or the exception it raises
  (\<open>Inl\<close>), together with the state it leaves behind: the state survives an exception.
\<close>

type_synonym 'a outcome = "(error + 'a) \<times> bot_state"

text \<open>\<^verbatim>\<open>update.message.reply_text(text)\<close> and \<^verbatim>\<open>processing_msg.edit_text(text)\<close>: the
  call is logged, then the transport either accepts it or raises.\<close>

definition transport_call :: "world \<Rightarrow> action \<Rightarrow> bot_state \<Rightarrow> unit outcome" where
  "transport_call w a s =
     (let s1 = s\<lparr>sent := sent s @ [a]\<rparr>
      in case telegram_send w a of
           Some e \<Rightarrow> (Inl e, s1)
         | None \<Rightarrow> (Inr (), s1))"

definition reply_text :: "world \<Rightarrow> string \<Rightarrow> bot_state \<Rightarrow> unit outcome" where
  "reply_text w txt s = transport_call w (Reply txt) s"

definition edit_text :: "world \<Rightarrow> string \<Rightarrow> bot_state \<Rightarrow> unit outcome" where
  "edit_text w txt s = transport_call w (Edit txt) s"

definition greeting_text :: string where
  "greeting_text = ''Greetings! I am Wonder, your personal AI assistant. Like JARVIS, but with my own unique charm. I'' @ [CHR 0x27] @ ''m here to help with anything you need - from complex problems to casual conversation. You can send me text messages or voice notes! How may I assist you today?''"

definition help_text :: string where
  "help_text = ''I'' @ [CHR 0x27] @ ''m here to help! You can:'' @ [CHR 0x0A]
     @ ''- Send me text messages'' @ [CHR 0x0A]
     @ ''- Send voice messages'' @ [CHR 0x0A]
     @ ''- Use /clear to reset our conversation'' @ [CHR 0x0A, CHR 0x0A]
     @ ''I'' @ [CHR 0x27] @ ''ll do my best to assist you with any questions or tasks!''"

definition cleared_text :: string where
  "cleared_text = ''Conversation history has been cleared. Let'' @ [CHR 0x27] @ ''s start fresh!''"

definition text_apology :: string where
  "text_apology = ''I apologize, but I encountered an error. Please try again later.''"

definition voice_apology :: string where
  "voice_apology = ''I apologize, but I encountered an error processing your voice message. Please try again or send your message as text.''"

text \<open>The two progress texts of the voice handler, with the bytes the source file holds
  in front of the words.\<close>

definition processing_text :: string where
  "processing_text =
     [CHR 0xC3, CHR 0xB0, CHR 0xC5, CHR 0xB8, CHR 0xC5, CHR 0xBD, CHR 0xC2, CHR 0xA7]
     @ '' Processing your voice message...''"

definition heard_text :: "string \<Rightarrow> string" where
  "heard_text transcribed_text =
     [CHR 0xC3, CHR 0xB0, CHR 0xC5, CHR 0xB8, CHR 0xC5, CHR 0xBD, CHR 0xC2, CHR 0xAF]
     @ '' I heard: '' @ [CHR 0x22] @ transcribed_text @ [CHR 0x22, CHR 0x0A, CHR 0x0A]
     @ [CHR 0xC3, CHR 0xB0, CHR 0xC5, CHR 0xB8, CHR 0xE2, CHR 0x80, CHR 0x99, CHR 0xC2, CHR 0xAD]
     @ '' Thinking...''"

text \<open>
  \<^verbatim>\<open>
  async def start(update, context):
      user_id = update.effective_user.id
      conversation_history[user_id].clear()
      await update.message.reply_text("Greetings! ...")
  \<close>
\<close>

definition start :: "world \<Rightarrow> update \<Rightarrow> bot_state \<Rightarrow> unit outcome" where
  "start w upd s =
     (let user_id = effective_user_id upd;
          s1 = s\<lparr>conversation_history := clear_user user_id (conversation_history s)\<rparr>
      in reply_text w greeting_text s1)"

definition help_command :: "world \<Rightarrow> update \<Rightarrow> bot_state \<Rightarrow> unit outcome" where
  "help_command w upd s = reply_text w help_text s"

definition clear_history :: "world \<Rightarrow> update \<Rightarrow> bot_state \<Rightarrow> unit outcome" where
  "clear_history w upd s =
     (let user_id = effective_user_id upd;
          s1 = s\<lparr>conversation_history := clear_user user_id (conversation_history s)\<rparr>
      in reply_text w cleared_text s1)"

text \<open>
  \<^verbatim>\<open>
  async def process_message(user_id, message_text):
      update_conversation_history(user_id, "user", message_text)
      messages = build_messages(user_id, message_text)
      response = client.chat.completions.create(model="gpt-4o-mini", messages=messages)
      ai_response = response.choices[0].message.content
      update_conversation_history(user_id, "assistant", ai_response)
      return ai_response
  \<close>
  The completion call and the extraction of the reply text are one step of the model:
  it raises, or it yields the reply string.
\<close>

definition process_message :: "world \<Rightarrow> int \<Rightarrow> string \<Rightarrow> bot_state \<Rightarrow> string outcome" where
  "process_message w user_id message_text s =
     (let h1 = update_conversation_history user_id ''user'' message_text
                 (conversation_history s);
          (messages, h2) = build_messages w user_id message_text h1
      in case chat_completions_create w messages of
           Inl e \<Rightarrow> (Inl e, s\<lparr>conversation_history := h2\<rparr>)
         | Inr ai_response \<Rightarrow>
             (Inr ai_response,
              s\<lparr>conversation_history :=
                   update_conversation_history user_id ''assistant'' ai_response h2\<rparr>))"

text \<open>The list that \<^verbatim>\<open>process_message\<close> hands to the completion API: what
  \<^verbatim>\<open>build_messages\<close> returns right after the user's turn was stored.\<close>

definition process_request :: "world \<Rightarrow> int \<Rightarrow> string \<Rightarrow> bot_state \<Rightarrow> message list" where
  "process_request w user_id message_text s =
     fst (build_messages w user_id message_text
            (update_conversation_history user_id ''user'' message_text
               (conversation_history s)))"

text \<open>
  \<^verbatim>\<open>
  async def handle_message(update, context):
      try:
          user_id = update.effective_user.id
          user_message = update.message.text
          ai_response = await process_message(user_id, user_message)
          await update.message.reply_text(ai_response)
      except Exception as e:
          logging.error(...)
          await update.message.reply_text("I apologize, but I encountered an error. ...")
  \<close>
  \<open>handle_message_try\<close> is the body of the \<^verbatim>\<open>try\<close>; the log line changes nothing
  of the state that is modelled.
\<close>

definition handle_message_try :: "world \<Rightarrow> update \<Rightarrow> bot_state \<Rightarrow> unit outcome" where
  "handle_message_try w upd s =
     (let user_id = effective_user_id upd;
          user_message = msg_text upd
      in case process_message w user_id user_message s of
           (Inl e, s1) \<Rightarrow> (Inl e, s1)
         | (Inr ai_response, s1) \<Rightarrow> reply_text w ai_response s1)"

definition handle_message :: "world \<Rightarrow> update \<Rightarrow> bot_state \<Rightarrow> unit outcome" where
  "handle_message w upd s =
     (case handle_message_try w upd s of
        (Inl e, s1) \<Rightarrow> reply_text w text_apology s1
      | (Inr u, s1) \<Rightarrow> (Inr u, s1))"

text \<open>File operations of the voice handler: \<^verbatim>\<open>open(name, "rb")\<close> and
  \<^verbatim>\<open>os.unlink(name)\<close> raise on a missing file.\<close>

definition read_file :: "string \<Rightarrow> bot_state \<Rightarrow> string outcome" where
  "read_file name s =
     (case files s name of None \<Rightarrow> (Inl OSError, s) | Some bytes \<Rightarrow> (Inr bytes, s))"

definition unlink :: "string \<Rightarrow> bot_state \<Rightarrow> unit outcome" where
  "unlink name s =
     (case files s name of
        None \<Rightarrow> (Inl OSError, s)
      | Some bytes \<Rightarrow> (Inr (), s\<lparr>files := (files s)(name := None)\<rparr>))"

text \<open>
  \<^verbatim>\<open>
  with tempfile.NamedTemporaryFile(suffix='.ogg', delete=False) as temp_file:
      await voice_file.download_to_drive(temp_file.name)
      with open(temp_file.name, "rb") as audio_file:
          transcript = client.audio.transcriptions.create(model="whisper-1", file=audio_file)
  \<close>
  The file is created empty (its creation is taken to succeed) and, with
  \<^verbatim>\<open>delete=False\<close>, stays on disk when the block is left, by its end or by an
  exception.
\<close>

definition download_and_transcribe :: "world \<Rightarrow> string \<Rightarrow> bot_state \<Rightarrow> string outcome" where
  "download_and_transcribe w voice_file s =
     (let name = temp_file_name w;
          s1 = s\<lparr>files := (files s)(name \<mapsto> [])\<rparr>
      in case download_to_drive w voice_file of
           Inl e \<Rightarrow> (Inl e, s1)
         | Inr bytes \<Rightarrow>
             (let s2 = s1\<lparr>files := (files s1)(name \<mapsto> bytes)\<rparr>
              in case read_file name s2 of
                   (Inl e, s3) \<Rightarrow> (Inl e, s3)
                 | (Inr audio, s3) \<Rightarrow>
                     (case audio_transcriptions_create w audio of
                        Inl e \<Rightarrow> (Inl e, s3)
                      | Inr transcript \<Rightarrow> (Inr transcript, s3))))"

text \<open>
  The body of the \<^verbatim>\<open>try\<close> of \<^verbatim>\<open>handle_voice\<close>: acknowledge, fetch the file handle,
  download and transcribe, \<^verbatim>\<open>os.unlink(temp_file.name)\<close>, show the transcript, then the
  shared \<^verbatim>\<open>process_message\<close> path and the reply.
\<close>

definition handle_voice_try :: "world \<Rightarrow> update \<Rightarrow> bot_state \<Rightarrow> unit outcome" where
  "handle_voice_try w upd s =
     (case reply_text w processing_text s of
        (Inl e, s1) \<Rightarrow> (Inl e, s1)
      | (Inr u, s1) \<Rightarrow>
     (case bot_get_file w (voice_file_id upd) of
        Inl e \<Rightarrow> (Inl e, s1)
      | Inr voice_file \<Rightarrow>
     (case download_and_transcribe w voice_file s1 of
        (Inl e, s2) \<Rightarrow> (Inl e, s2)
      | (Inr transcribed_text, s2) \<Rightarrow>
     (case unlink (temp_file_name w) s2 of
        (Inl e, s3) \<Rightarrow> (Inl e, s3)
      | (Inr u, s3) \<Rightarrow>
     (case edit_text w (heard_text transcribed_text) s3 of
        (Inl e, s4) \<Rightarrow> (Inl e, s4)
      | (Inr u, s4) \<Rightarrow>
     (case process_message w (effective_user_id upd) transcribed_text s4 of
        (Inl e, s5) \<Rightarrow> (Inl e, s5)
      | (Inr ai_response, s5) \<Rightarrow> reply_text w ai_response s5))))))"

text \<open>\<^verbatim>\<open>except Exception\<close>: log, then send the voice apology.\<close>

definition handle_voice :: "world \<Rightarrow> update \<Rightarrow> bot_state \<Rightarrow> unit outcome" where
  "handle_voice w upd s =
     (case handle_voice_try w upd s of
        (Inl e, s1) \<Rightarrow> reply_text w voice_apology s1
      | (Inr u, s1) \<Rightarrow> (Inr u, s1))"

text \<open>
  The handlers registered in \<^verbatim>\<open>main\<close>, by the kind of update each one filters. An
  exception that leaves a handler is logged by the framework; the state stays as the
  handler left it.
\<close>

datatype update_kind =
  StartCommand | HelpCommand | ClearCommand | VoiceMessage | TextMessage | OtherUpdate

definition dispatch :: "world \<Rightarrow> update_kind \<Rightarrow> update \<Rightarrow> bot_state \<Rightarrow> unit outcome" where
  "dispatch w k upd s =
     (case k of
        StartCommand \<Rightarrow> start w upd s
      | HelpCommand \<Rightarrow> help_command w upd s
      | ClearCommand \<Rightarrow> clear_history w upd s
      | VoiceMessage \<Rightarrow> handle_voice w upd s
      | TextMessage \<Rightarrow> handle_message w upd s
      | OtherUpdate \<Rightarrow> (Inr (), s))"

text \<open>The bot's life: one handler run after the other, each in the world of its time.\<close>

fun run :: "(world \<times> update_kind \<times> update) list \<Rightarrow> bot_state \<Rightarrow> bot_state" where
  "run [] s = s"
| "run ((w, k, upd) # evs) s = run evs (snd (dispatch w k upd s))"

section \<open>Sample inputs\<close>

text \<open>A world in which the transport accepts every call, the file download succeeds, and
  the two model services give the stated answers whatever they are asked.\<close>

definition fixed_world :: "string option \<Rightarrow> error + string \<Rightarrow> error + string \<Rightarrow> world" where
  "fixed_world prompt completion transcription =
     \<lparr>getenv_SYSTEM_PROMPT = prompt,
      date_str = ''Wednesday, November 04, 2026'',
      time_str = ''9:15 PM'',
      chat_completions_create = (\<lambda>messages. completion),
      audio_transcriptions_create = (\<lambda>audio. transcription),
      bot_get_file = (\<lambda>file_id. Inr file_id),
      download_to_drive = (\<lambda>voice_file. Inr ''OggS''),
      temp_file_name = ''/tmp/tmpk3v9x1.ogg'',
      telegram_send = (\<lambda>a. None)\<rparr>"

definition sample_update :: "int \<Rightarrow> string \<Rightarrow> update" where
  "sample_update user_id txt =
     \<lparr>effective_user_id = user_id, msg_text = txt, voice_file_id = ''voice-1''\<rparr>"

definition eleven_turns :: "turn list" where
  "eleven_turns =
     [(''user'', ''q1''), (''assistant'', ''a1''), (''user'', ''q2''), (''assistant'', ''a2''),
      (''user'', ''q3''), (''assistant'', ''a3''), (''user'', ''q4''), (''assistant'', ''a4''),
      (''user'', ''q5''), (''assistant'', ''a5''), (''user'', ''q6'')]"

section \<open>Invariants of the store\<close>

text \<open>Every stored turn was written by \<^verbatim>\<open>process_message\<close>: its role is the user's or
  the assistant's.\<close>

definition roles_ok :: "history_store \<Rightarrow> bool" where
  "roles_ok h =
     (\<forall>u t. t \<in> set (get_history h u) \<longrightarrow> fst t = ''user'' \<or> fst t = ''assistant'')"

text \<open>No history is longer than the cap.\<close>

definition bounded :: "history_store \<Rightarrow> bool" where
  "bounded h = (\<forall>u. length (get_history h u) \<le> MAX_HISTORY)"

section \<open>Closed forms of the store operations\<close>

lemma get_history_simps:
  "get_history h u = (case h u of None \<Rightarrow> [] | Some xs \<Rightarrow> xs)"
  by (simp add: get_history_def getitem_def split: option.splits)

lemma length_slice_last: "length (slice_last n xs) = min n (length xs)"
  by (simp add: slice_last_def)

lemma update_conversation_history_eq:
  "update_conversation_history u r c h =
     h(u \<mapsto> slice_last MAX_HISTORY (get_history h u @ [(r, c)]))"
  by (auto simp: update_conversation_history_def get_history_def getitem_def Let_def
        slice_last_def split: option.splits)

lemma clear_user_eq: "clear_user u h = h(u \<mapsto> [])"
  by (simp add: clear_user_def getitem_def split: option.splits)

lemma build_messages_eq:
  "build_messages w u m h =
     (\<lparr>role = ''system'', content = time_aware_prompt w\<rparr>
        # map turn_message (get_history h u) @ [\<lparr>role = ''user'', content = m\<rparr>],
      snd (getitem h u))"
  by (simp add: build_messages_def get_history_def Let_def split: prod.splits)

lemma get_history_update_same:
  "get_history (update_conversation_history u r c h) u =
     slice_last MAX_HISTORY (get_history h u @ [(r, c)])"
  by (simp add: update_conversation_history_eq get_history_simps)

lemma get_history_update_other:
  "v \<noteq> u \<Longrightarrow> get_history (update_conversation_history u r c h) v = get_history h v"
  by (simp add: update_conversation_history_eq get_history_simps)

lemma slice_last_rev: "slice_last n xs = rev (take n (rev xs))"
  by (simp add: slice_last_def rev_take)

lemma slice_last_slice_last_append:
  "slice_last n (slice_last n xs @ ys) = slice_last n (xs @ ys)"
  by (simp add: slice_last_rev min_def)

lemma append_all_snoc:
  "append_all u (ts @ [t]) h = update_conversation_history u (fst t) (snd t) (append_all u ts h)"
  by (induction ts arbitrary: h) simp_all

lemma get_history_append_all:
  "ts \<noteq> [] \<Longrightarrow>
   get_history (append_all u ts h) u = slice_last MAX_HISTORY (get_history h u @ ts)"
proof (induction ts arbitrary: h)
  case Nil
  then show ?case by simp
next
  case (Cons t ts)
  show ?case
  proof (cases "ts = []")
    case True
    then show ?thesis by (simp add: get_history_update_same)
  next
    case False
    then show ?thesis
      using Cons.IH [of "update_conversation_history u (fst t) (snd t) h"]
      by (simp add: get_history_update_same slice_last_slice_last_append)
  qed
qed

section \<open>What each handler step does to the state\<close>

lemma transport_call_history [simp]:
  "conversation_history (snd (transport_call w a s)) = conversation_history s"
  by (simp add: transport_call_def Let_def split: option.splits)

lemma transport_call_files [simp]:
  "files (snd (transport_call w a s)) = files s"
  by (simp add: transport_call_def Let_def split: option.splits)

lemma transport_call_sent [simp]:
  "sent (snd (transport_call w a s)) = sent s @ [a]"
  by (simp add: transport_call_def Let_def split: option.splits)

lemma snd_getitem_update_same:
  "snd (getitem (update_conversation_history u r c h) u) = update_conversation_history u r c h"
  by (simp add: update_conversation_history_eq getitem_def)

lemma process_message_eq:
  "process_message w u m s =
     (case chat_completions_create w (process_request w u m s) of
        Inl e \<Rightarrow>
          (Inl e, s\<lparr>conversation_history :=
                       update_conversation_history u ''user'' m (conversation_history s)\<rparr>)
      | Inr a \<Rightarrow>
          (Inr a, s\<lparr>conversation_history :=
                       update_conversation_history u ''assistant'' a
                         (update_conversation_history u ''user'' m (conversation_history s))\<rparr>))"
  by (simp add: process_message_def process_request_def build_messages_eq
        snd_getitem_update_same Let_def split: sum.splits)

lemma process_message_files [simp]: "files (snd (process_message w u m s)) = files s"
  by (simp add: process_message_eq split: sum.splits)

lemma process_message_sent [simp]: "sent (snd (process_message w u m s)) = sent s"
  by (simp add: process_message_eq split: sum.splits)

lemma process_message_frame:
  "v \<noteq> u \<Longrightarrow> conversation_history (snd (process_message w u m s)) v = conversation_history s v"
  by (simp add: process_message_eq update_conversation_history_eq split: sum.splits)

lemma in_set_slice_lastD: "t \<in> set (slice_last n xs) \<Longrightarrow> t \<in> set xs"
  by (simp add: slice_last_def in_set_dropD)


lemma roles_ok_update:
  "roles_ok h \<Longrightarrow> r = ''user'' \<or> r = ''assistant'' \<Longrightarrow>
   roles_ok (update_conversation_history u r c h)"
  unfolding roles_ok_def
proof (intro allI impI)
  fix v t
  assume inv: "\<forall>u t. t \<in> set (get_history h u) \<longrightarrow> fst t = ''user'' \<or> fst t = ''assistant''"
    and r: "r = ''user'' \<or> r = ''assistant''"
    and t: "t \<in> set (get_history (update_conversation_history u r c h) v)"
  show "fst t = ''user'' \<or> fst t = ''assistant''"
  proof (cases "v = u")
    case True
    with t have "t \<in> set (slice_last MAX_HISTORY (get_history h u @ [(r, c)]))"
      by (simp add: get_history_update_same)
    then have "t \<in> set (get_history h u) \<or> t = (r, c)"
      by (auto dest: in_set_slice_lastD)
    then show ?thesis
    proof
      assume "t \<in> set (get_history h u)"
      with inv show ?thesis by blast
    next
      assume "t = (r, c)"
      with r show ?thesis by simp
    qed
  next
    case False
    with t have "t \<in> set (get_history h v)"
      by (simp add: get_history_update_other)
    with inv show ?thesis by blast
  qed
qed

lemma roles_ok_clear: "roles_ok h \<Longrightarrow> roles_ok (clear_user u h)"
  by (simp add: roles_ok_def clear_user_eq get_history_simps)


lemma reply_text_history [simp]:
  "conversation_history (snd (reply_text w txt s)) = conversation_history s"
  by (simp add: reply_text_def)

lemma edit_text_history [simp]:
  "conversation_history (snd (edit_text w txt s)) = conversation_history s"
  by (simp add: edit_text_def)

lemma handle_message_history:
  "conversation_history (snd (handle_message w upd s)) =
   conversation_history (snd (process_message w (effective_user_id upd) (msg_text upd) s))"
proof (cases "process_message w (effective_user_id upd) (msg_text upd) s")
  case (Pair r s1)
  show ?thesis
  proof (cases r)
    case (Inl e)
    with Pair show ?thesis
      by (simp add: handle_message_def handle_message_try_def)
  next
    case (Inr a)
    with Pair show ?thesis
      by (cases "reply_text w a s1"; cases "fst (reply_text w a s1)")
         (auto simp: handle_message_def handle_message_try_def
            dest: arg_cong [where f = "\<lambda>p. conversation_history (snd p)"])
  qed
qed

lemma unlink_history [simp]:
  "conversation_history (snd (unlink name s)) = conversation_history s"
  by (simp add: unlink_def split: option.splits)

lemma download_and_transcribe_history [simp]:
  "conversation_history (snd (download_and_transcribe w vf s)) = conversation_history s"
  by (simp add: download_and_transcribe_def read_file_def Let_def
        split: sum.splits option.splits)

lemma transport_callD:
  "transport_call w a s = (r, s1) \<Longrightarrow>
   conversation_history s1 = conversation_history s \<and> files s1 = files s \<and> sent s1 = sent s @ [a]"
  by (auto simp: transport_call_def Let_def split: option.splits)

lemma reply_textD:
  "reply_text w txt s = (r, s1) \<Longrightarrow>
   conversation_history s1 = conversation_history s \<and> files s1 = files s
     \<and> sent s1 = sent s @ [Reply txt]"
  unfolding reply_text_def by (rule transport_callD)

lemma edit_textD:
  "edit_text w txt s = (r, s1) \<Longrightarrow>
   conversation_history s1 = conversation_history s \<and> files s1 = files s
     \<and> sent s1 = sent s @ [Edit txt]"
  unfolding edit_text_def by (rule transport_callD)

lemma unlinkD:
  "unlink name s = (r, s1) \<Longrightarrow> conversation_history s1 = conversation_history s"
  by (auto simp: unlink_def split: option.splits)

lemma download_and_transcribeD:
  "download_and_transcribe w vf s = (r, s1) \<Longrightarrow> conversation_history s1 = conversation_history s"
  using download_and_transcribe_history [of w vf s] by simp

section \<open>Properties kept by every handler\<close>

lemma process_message_preserves:
  assumes upd: "\<And>u r c h. P h \<Longrightarrow> r = ''user'' \<or> r = ''assistant'' \<Longrightarrow>
                  P (update_conversation_history u r c h)"
    and P: "P (conversation_history s)"
  shows "P (conversation_history (snd (process_message w u m s)))"
  using P by (simp add: process_message_eq upd split: sum.splits)

lemma handle_voice_try_history:
  "conversation_history (snd (handle_voice_try w upd s)) = conversation_history s \<or>
   (\<exists>txt s'. conversation_history s' = conversation_history s \<and>
      conversation_history (snd (handle_voice_try w upd s)) =
        conversation_history (snd (process_message w (effective_user_id upd) txt s')))"
  unfolding handle_voice_try_def
  by (auto split: prod.splits sum.splits
        dest!: reply_textD edit_textD unlinkD download_and_transcribeD)
     (metis snd_conv)+

lemma handle_voice_history:
  "conversation_history (snd (handle_voice w upd s)) =
   conversation_history (snd (handle_voice_try w upd s))"
  by (cases "handle_voice_try w upd s"; cases "fst (handle_voice_try w upd s)")
     (auto simp: handle_voice_def)

lemma start_history:
  "conversation_history (snd (start w upd s)) =
   clear_user (effective_user_id upd) (conversation_history s)"
  by (simp add: start_def Let_def)

lemma clear_history_history:
  "conversation_history (snd (clear_history w upd s)) =
   clear_user (effective_user_id upd) (conversation_history s)"
  by (simp add: clear_history_def Let_def)

lemma help_command_history:
  "conversation_history (snd (help_command w upd s)) = conversation_history s"
  by (simp add: help_command_def)

lemma dispatch_preserves:
  assumes upd: "\<And>u r c h. P h \<Longrightarrow> r = ''user'' \<or> r = ''assistant'' \<Longrightarrow>
                  P (update_conversation_history u r c h)"
    and clr: "\<And>u h. P h \<Longrightarrow> P (clear_user u h)"
    and P: "P (conversation_history s)"
  shows "P (conversation_history (snd (dispatch w k upd0 s)))"
proof (cases k)
  case StartCommand
  then show ?thesis by (simp add: dispatch_def start_history clr P)
next
  case HelpCommand
  then show ?thesis by (simp add: dispatch_def help_command_history P)
next
  case ClearCommand
  then show ?thesis by (simp add: dispatch_def clear_history_history clr P)
next
  case VoiceMessage
  have "P (conversation_history (snd (handle_voice_try w upd0 s)))"
    using handle_voice_try_history [of w upd0 s]
  proof
    assume "conversation_history (snd (handle_voice_try w upd0 s)) = conversation_history s"
    with P show ?thesis by simp
  next
    assume "\<exists>txt s'. conversation_history s' = conversation_history s \<and>
      conversation_history (snd (handle_voice_try w upd0 s)) =
        conversation_history (snd (process_message w (effective_user_id upd0) txt s'))"
    then obtain heard s' where s': "conversation_history s' = conversation_history s"
      and eq: "conversation_history (snd (handle_voice_try w upd0 s)) =
        conversation_history (snd (process_message w (effective_user_id upd0) heard s'))"
      by blast
    from P s' have P': "P (conversation_history s')" by simp
    have "P (conversation_history (snd (process_message w (effective_user_id upd0) heard s')))"
      using upd P' by (rule process_message_preserves [where P = P])
    with eq show ?thesis by simp
  qed
  with VoiceMessage show ?thesis by (simp add: dispatch_def handle_voice_history)
next
  case TextMessage
  have "P (conversation_history (snd (process_message w (effective_user_id upd0) (msg_text upd0) s)))"
    using upd P by (rule process_message_preserves [where P = P])
  with TextMessage show ?thesis by (simp add: dispatch_def handle_message_history)
next
  case OtherUpdate
  then show ?thesis by (simp add: dispatch_def P)
qed

lemma run_preserves:
  assumes upd: "\<And>u r c h. P h \<Longrightarrow> r = ''user'' \<or> r = ''assistant'' \<Longrightarrow>
                  P (update_conversation_history u r c h)"
    and clr: "\<And>u h. P h \<Longrightarrow> P (clear_user u h)"
  shows "P (conversation_history s) \<Longrightarrow> P (conversation_history (run evs s))"
proof (induction evs arbitrary: s)
  case Nil
  then show ?case by simp
next
  case (Cons ev evs)
  obtain w k upd0 where ev: "ev = (w, k, upd0)" by (cases ev) auto
  have "P (conversation_history (snd (dispatch w k upd0 s)))"
    using upd clr Cons.prems by (rule dispatch_preserves [where P = P])
  then show ?case using Cons.IH ev by simp
qed

lemma roles_ok_initial: "roles_ok (conversation_history initial_state)"
  by (simp add: roles_ok_def initial_state_def get_history_simps)

lemma roles_ok_run: "roles_ok (conversation_history (run evs initial_state))"
  by (rule run_preserves [where P = roles_ok, OF roles_ok_update roles_ok_clear roles_ok_initial])

text \<open>In every state the bot reaches, no history is longer than \<^verbatim>\<open>MAX_HISTORY\<close>.\<close>

lemma bounded_run: "bounded (conversation_history (run evs initial_state))"
proof (rule run_preserves [where P = bounded])
  show "bounded (conversation_history initial_state)"
    by (simp add: bounded_def initial_state_def get_history_simps)
next
  fix u h assume "bounded h"
  then show "bounded (clear_user u h)"
    by (simp add: bounded_def clear_user_eq get_history_simps)
next
  fix u r c h assume "bounded h"
  then show "bounded (update_conversation_history u r c h)"
    by (simp add: bounded_def update_conversation_history_eq get_history_simps length_slice_last)
qed

section \<open>The request built by the shared process path\<close>

lemma slice_last_snoc: "0 < n \<Longrightarrow> slice_last n (xs @ [x]) = slice_last (n - 1) xs @ [x]"
  by (auto simp: slice_last_def Suc_diff_le)

lemma process_request_eq:
  "process_request w u m s =
     \<lparr>role = ''system'', content = time_aware_prompt w\<rparr>
       # map turn_message (slice_last (MAX_HISTORY - 1) (get_history (conversation_history s) u))
       @ [\<lparr>role = ''user'', content = m\<rparr>, \<lparr>role = ''user'', content = m\<rparr>]"
  by (simp add: process_request_def build_messages_eq get_history_update_same
        slice_last_snoc MAX_HISTORY_def turn_message_def)

text \<open>Whatever the user, the text and the state, the request holds the new user message
  at least twice.\<close>

lemma process_request_repeats_new_message:
  "2 \<le> length (filter (\<lambda>x. x = \<lparr>role = ''user'', content = m\<rparr>) (process_request w u m s))"
  by (simp add: process_request_eq)

text \<open>
  C1. In the shared process path the new message should appear exactly once in the list
  built for the completion API. The code appends the user turn to the history first and
  \<^verbatim>\<open>build_messages\<close> then adds the new message again after the history, so the list
  ends with two copies of it (\<open>process_request_eq\<close>, for every user, text and state). For
  a fresh user who sends \<^verbatim>\<open>Hello\<close> the request holds the message twice.
\<close>

theorem process_message_sends_new_message_twice:
  "process_request (fixed_world None (Inr ''Hi there!'') (Inr ''Hello'')) 1 ''Hello'' initial_state =
     [\<lparr>role = ''system'',
       content = ''You are a helpful assistant. The current date is Wednesday, November 04, 2026 and the time is 9:15 PM Pacific Time.''\<rparr>,
      \<lparr>role = ''user'', content = ''Hello''\<rparr>,
      \<lparr>role = ''user'', content = ''Hello''\<rparr>]
   \<and> length (filter (\<lambda>x. content x = ''Hello'')
        (process_request (fixed_world None (Inr ''Hi there!'') (Inr ''Hello'')) 1 ''Hello''
           initial_state)) = 2"
  by (simp add: process_request_eq initial_state_def get_history_simps slice_last_def
        time_aware_prompt_def base_prompt_def default_system_prompt_def fixed_world_def)

section \<open>The rolling window\<close>

text \<open>
  C2. After \<open>N + k\<close> appends (\<open>k \<ge> 1\<close>, \<open>N = 10\<close>) to one user's history, whatever the
  store held before, the history is exactly the last \<open>N\<close> appended turns in their order;
  after every one of the appends the history is at most \<open>N\<close> long; and each append
  leaves the previous history followed by the new turn, cut from the front: the oldest
  turns go first and the rest keep their order.
\<close>

theorem rolling_window:
  assumes len: "length ts = MAX_HISTORY + k" and k: "1 \<le> k"
  shows "get_history (append_all u ts h) u = drop k ts
    \<and> (\<forall>n. 0 < n \<and> n \<le> length ts \<longrightarrow>
          length (get_history (append_all u (take n ts) h) u) \<le> MAX_HISTORY)
    \<and> (\<forall>n. n < length ts \<longrightarrow>
          get_history (append_all u (take (Suc n) ts) h) u =
            drop (Suc (length (get_history (append_all u (take n ts) h) u)) - MAX_HISTORY)
              (get_history (append_all u (take n ts) h) u @ [ts ! n]))"
proof (intro conjI allI impI)
  from len k have ne: "ts \<noteq> []" by auto
  from len show "get_history (append_all u ts h) u = drop k ts"
    by (simp add: get_history_append_all [OF ne] slice_last_def)
next
  fix n assume "0 < n \<and> n \<le> length ts"
  then have "take n ts \<noteq> []" by auto
  then have "get_history (append_all u (take n ts) h) u =
      slice_last MAX_HISTORY (get_history h u @ take n ts)"
    by (rule get_history_append_all)
  then show "length (get_history (append_all u (take n ts) h) u) \<le> MAX_HISTORY"
    by (simp add: length_slice_last)
next
  fix n assume n: "n < length ts"
  then have "take (Suc n) ts = take n ts @ [ts ! n]"
    by (rule take_Suc_conv_app_nth)
  then show "get_history (append_all u (take (Suc n) ts) h) u =
            drop (Suc (length (get_history (append_all u (take n ts) h) u)) - MAX_HISTORY)
              (get_history (append_all u (take n ts) h) u @ [ts ! n])"
    by (simp add: append_all_snoc get_history_update_same slice_last_def)
qed

theorem rolling_window_witness:
  "length eleven_turns = MAX_HISTORY + 1
   \<and> get_history (append_all 7 eleven_turns Map.empty) 7 =
       [(''assistant'', ''a1''), (''user'', ''q2''), (''assistant'', ''a2''),
        (''user'', ''q3''), (''assistant'', ''a3''), (''user'', ''q4''), (''assistant'', ''a4''),
        (''user'', ''q5''), (''assistant'', ''a5''), (''user'', ''q6'')]"
  using rolling_window [of eleven_turns 1 7 Map.empty]
  by (simp add: eleven_turns_def MAX_HISTORY_def)

section \<open>The assembled prompt\<close>

lemma filter_system_history:
  assumes "roles_ok h"
  shows "filter (\<lambda>x. role x = ''system'') (map turn_message (get_history h u)) = []"
proof -
  have "fst t \<noteq> ''system''" if "t \<in> set (get_history h u)" for t
  proof -
    from assms that have "fst t = ''user'' \<or> fst t = ''assistant''"
      unfolding roles_ok_def by blast
    then show ?thesis by auto
  qed
  then show ?thesis
    by (simp add: filter_empty_conv turn_message_def)
qed

text \<open>
  C3. For every user, new message, environment and store, the list built by
  \<^verbatim>\<open>build_messages\<close> is one system-role entry, then one entry for each stored turn of
  the user, in the stored order and with the role and the content of that turn, then a
  user-role entry whose content is the new message: reading role and content off the
  entries between the first and the last gives back the stored history. In every state
  the bot can reach no stored turn has the system role, so the system entry at the head is
  the only one.
\<close>

theorem build_messages_shape:
  "fst (build_messages w u m h) =
     \<lparr>role = ''system'', content = time_aware_prompt w\<rparr>
       # map (\<lambda>t. \<lparr>role = fst t, content = snd t\<rparr>) (get_history h u)
       @ [\<lparr>role = ''user'', content = m\<rparr>]
   \<and> map (\<lambda>x. (role x, content x)) (butlast (tl (fst (build_messages w u m h))))
       = get_history h u
   \<and> role (hd (fst (build_messages w u m h))) = ''system''
   \<and> last (fst (build_messages w u m h)) = \<lparr>role = ''user'', content = m\<rparr>
   \<and> length (filter (\<lambda>x. role x = ''system'')
        (fst (build_messages w u m (conversation_history (run evs initial_state))))) = 1"
proof -
  have shape: "fst (build_messages w u m h) =
     \<lparr>role = ''system'', content = time_aware_prompt w\<rparr>
       # map (\<lambda>t. \<lparr>role = fst t, content = snd t\<rparr>) (get_history h u)
       @ [\<lparr>role = ''user'', content = m\<rparr>]"
    by (simp add: build_messages_eq turn_message_def)
  have middle: "map (\<lambda>x. (role x, content x)) (butlast (tl (fst (build_messages w u m h))))
       = get_history h u"
    by (simp add: shape butlast_append comp_def)
  have only_one: "length (filter (\<lambda>x. role x = ''system'')
        (fst (build_messages w u m (conversation_history (run evs initial_state))))) = 1"
    by (simp add: build_messages_eq filter_system_history [OF roles_ok_run])
  from shape middle only_one show ?thesis by simp
qed

text \<open>A stored user turn and a stored assistant turn go out with their own roles, between
  the system entry and the new message.\<close>

theorem build_messages_shape_witness:
  "fst (build_messages (fixed_world None (Inr ''Hi there!'') (Inr ''Hello'')) 5 ''q2''
          [5 \<mapsto> [(''user'', ''q1''), (''assistant'', ''a1'')]]) =
     [\<lparr>role = ''system'',
       content = ''You are a helpful assistant. The current date is Wednesday, November 04, 2026 and the time is 9:15 PM Pacific Time.''\<rparr>,
      \<lparr>role = ''user'', content = ''q1''\<rparr>,
      \<lparr>role = ''assistant'', content = ''a1''\<rparr>,
      \<lparr>role = ''user'', content = ''q2''\<rparr>]
   \<and> map role (fst (build_messages (fixed_world None (Inr ''Hi there!'') (Inr ''Hello'')) 5 ''q2''
          [5 \<mapsto> [(''user'', ''q1''), (''assistant'', ''a1'')]])) =
       [''system'', ''user'', ''assistant'', ''user'']"
  using build_messages_shape [of "fixed_world None (Inr ''Hi there!'') (Inr ''Hello'')" 5 "''q2''"
      "[5 \<mapsto> [(''user'', ''q1''), (''assistant'', ''a1'')]]" "[]"]
  by (simp add: get_history_simps time_aware_prompt_def base_prompt_def
        default_system_prompt_def fixed_world_def)

text \<open>
  C7, as the code has it. When the environment variable \<^verbatim>\<open>SYSTEM_PROMPT\<close> is not set,
  the content of the system message starts with the default prompt
  \<^verbatim>\<open>You are a helpful assistant.\<close>
\<close>

theorem default_prompt_when_unset:
  "getenv_SYSTEM_PROMPT w = None \<Longrightarrow>
   prefix default_system_prompt (content (hd (fst (build_messages w u m h))))"
  by (simp add: build_messages_eq time_aware_prompt_def base_prompt_def)

theorem default_prompt_when_unset_witness:
  "getenv_SYSTEM_PROMPT (fixed_world None (Inr ''Hi there!'') (Inr ''Hello'')) = None
   \<and> prefix ''You are a helpful assistant.''
       (content (hd (fst (build_messages (fixed_world None (Inr ''Hi there!'') (Inr ''Hello''))
          1 ''Hello'' Map.empty))))"
  using default_prompt_when_unset [of "fixed_world None (Inr ''Hi there!'') (Inr ''Hello'')" 1
      "''Hello''" Map.empty]
  by (simp add: fixed_world_def default_system_prompt_def)

text \<open>
  C7, as stated, also promises the default for a prompt that is set to the empty string.
  \<^verbatim>\<open>os.getenv\<close> returns the empty string then, and the system message starts with the
  blank before \<^verbatim>\<open>The current date is\<close>.
\<close>

theorem default_prompt_not_used_for_empty:
  "\<not> prefix default_system_prompt
       (content (hd (fst (build_messages (fixed_world (Some []) (Inr ''Hi there!'') (Inr ''Hello''))
          1 ''Hello'' Map.empty))))"
  by (simp add: build_messages_eq time_aware_prompt_def base_prompt_def fixed_world_def
        default_system_prompt_def)

section \<open>Voice messages\<close>

lemma reply_text_files [simp]: "files (snd (reply_text w t s)) = files s"
  by (simp add: reply_text_def)

lemma reply_text_sent [simp]: "sent (snd (reply_text w t s)) = sent s @ [Reply t]"
  by (simp add: reply_text_def)

lemma process_messageD:
  "process_message w u m s = (r, s1) \<Longrightarrow> files s1 = files s \<and> sent s1 = sent s"
  using process_message_files [of w u m s] process_message_sent [of w u m s] by simp

text \<open>
  The run of \<^verbatim>\<open>handle_voice\<close> in which the acknowledgement goes out, the file is
  fetched and downloaded, and the transcription call raises: the handler jumps to the
  \<^verbatim>\<open>except\<close> block with the downloaded file still on disk.
\<close>

lemma handle_voice_transcription_failure:
  assumes ack: "telegram_send w (Reply processing_text) = None"
    and handle: "bot_get_file w (voice_file_id upd) = Inr voice_file"
    and download: "download_to_drive w voice_file = Inr bytes"
    and transcription: "audio_transcriptions_create w bytes = Inl e"
  shows "handle_voice w upd s =
     reply_text w voice_apology
       (s\<lparr>sent := sent s @ [Reply processing_text],
          files := (files s)(temp_file_name w \<mapsto> bytes)\<rparr>)"
  using assms
  by (simp add: handle_voice_def handle_voice_try_def reply_text_def transport_call_def
        download_and_transcribe_def read_file_def Let_def split: option.splits)

text \<open>
  When the transcription returns, \<^verbatim>\<open>os.unlink\<close> runs before anything else can
  raise, and the temporary file is gone whatever happens later.
\<close>

lemma handle_voice_deletes_file_after_transcription:
  assumes ack: "telegram_send w (Reply processing_text) = None"
    and handle: "bot_get_file w (voice_file_id upd) = Inr voice_file"
    and download: "download_to_drive w voice_file = Inr bytes"
    and transcription: "audio_transcriptions_create w bytes = Inr heard"
  shows "files (snd (handle_voice w upd s)) = (files s)(temp_file_name w := None)"
proof -
  let ?s3 = "s\<lparr>sent := sent s @ [Reply processing_text],
          files := (files s)(temp_file_name w := None)\<rparr>"
  have body: "handle_voice_try w upd s =
     (case edit_text w (heard_text heard) ?s3 of
        (Inl e, s4) \<Rightarrow> (Inl e, s4)
      | (Inr u, s4) \<Rightarrow>
     (case process_message w (effective_user_id upd) heard s4 of
        (Inl e, s5) \<Rightarrow> (Inl e, s5)
      | (Inr ai_response, s5) \<Rightarrow> reply_text w ai_response s5))"
    using assms
    by (simp add: handle_voice_try_def reply_text_def transport_call_def
          download_and_transcribe_def read_file_def unlink_def Let_def)
  have "files (snd (handle_voice_try w upd s)) = (files s)(temp_file_name w := None)"
    unfolding body
    by (auto split: prod.splits sum.splits dest!: edit_textD process_messageD)
  moreover have "files (snd (handle_voice w upd s)) = files (snd (handle_voice_try w upd s))"
    by (cases "handle_voice_try w upd s"; cases "fst (handle_voice_try w upd s)")
       (auto simp: handle_voice_def reply_text_def)
  ultimately show ?thesis by simp
qed

text \<open>
  C4. The temporary audio file should be deleted on every exit path of the voice handler.
  \<^verbatim>\<open>os.unlink(temp_file.name)\<close> stands after the \<^verbatim>\<open>with\<close> block inside the
  \<^verbatim>\<open>try\<close>, so a transcription that raises skips it: after the handler the file is
  still there, with the downloaded bytes.
\<close>

theorem temp_file_left_after_failed_transcription:
  "files (snd (handle_voice (fixed_world None (Inr ''Hi there!'') (Inl TranscriptionError))
      (sample_update 1 []) initial_state)) ''/tmp/tmpk3v9x1.ogg'' = Some ''OggS''"
  by (simp add: handle_voice_transcription_failure [where voice_file = "''voice-1''"
          and bytes = "''OggS''" and e = TranscriptionError]
        fixed_world_def sample_update_def initial_state_def reply_text_def)

text \<open>
  C6. When the voice handler reaches the transcription call and the call raises, the
  conversation store is exactly what it was before the handler ran, and the last thing the
  bot sends is the fixed voice apology.
\<close>

theorem transcription_failure_leaves_history:
  assumes "telegram_send w (Reply processing_text) = None"
    and "bot_get_file w (voice_file_id upd) = Inr voice_file"
    and "download_to_drive w voice_file = Inr bytes"
    and "audio_transcriptions_create w bytes = Inl e"
  shows "conversation_history (snd (handle_voice w upd s)) = conversation_history s
    \<and> sent (snd (handle_voice w upd s)) = sent s @ [Reply processing_text, Reply voice_apology]"
  by (simp add: handle_voice_transcription_failure [OF assms])

theorem transcription_failure_leaves_history_witness:
  "telegram_send (fixed_world None (Inr ''Hi there!'') (Inl TranscriptionError))
      (Reply processing_text) = None
   \<and> bot_get_file (fixed_world None (Inr ''Hi there!'') (Inl TranscriptionError))
        (voice_file_id (sample_update 1 [])) = Inr ''voice-1''
   \<and> download_to_drive (fixed_world None (Inr ''Hi there!'') (Inl TranscriptionError)) ''voice-1''
        = Inr ''OggS''
   \<and> audio_transcriptions_create (fixed_world None (Inr ''Hi there!'') (Inl TranscriptionError))
        ''OggS'' = Inl TranscriptionError
   \<and> conversation_history
        (snd (handle_voice (fixed_world None (Inr ''Hi there!'') (Inl TranscriptionError))
           (sample_update 1 []) initial_state)) = Map.empty
   \<and> sent (snd (handle_voice (fixed_world None (Inr ''Hi there!'') (Inl TranscriptionError))
           (sample_update 1 []) initial_state)) = [Reply processing_text, Reply voice_apology]"
  using transcription_failure_leaves_history
    [of "fixed_world None (Inr ''Hi there!'') (Inl TranscriptionError)" "sample_update 1 []"
       "''voice-1''" "''OggS''" TranscriptionError initial_state]
  by (simp add: fixed_world_def sample_update_def initial_state_def)

section \<open>A failing completion call\<close>

lemma get_history_empty: "get_history Map.empty u = []"
  by (simp add: get_history_simps)

lemma handle_message_completion_failure:
  assumes "chat_completions_create w
             (process_request w (effective_user_id upd) (msg_text upd) s) = Inl e"
  shows "handle_message w upd s =
     reply_text w text_apology
       (s\<lparr>conversation_history :=
            update_conversation_history (effective_user_id upd) ''user'' (msg_text upd)
              (conversation_history s)\<rparr>)"
  using assms
  by (simp add: handle_message_def handle_message_try_def process_message_eq)

text \<open>
  C5. When the completion call raises while a text message is processed,
  \<^verbatim>\<open>process_message\<close> raises, the store is the old store with the user's turn appended
  (and nothing else: no assistant turn), the user's history ends with that turn, and the
  bot sends the fixed apology.
\<close>

theorem completion_failure_keeps_user_turn:
  assumes "chat_completions_create w
             (process_request w (effective_user_id upd) (msg_text upd) s) = Inl e"
  shows "fst (process_message w (effective_user_id upd) (msg_text upd) s) = Inl e
    \<and> conversation_history (snd (handle_message w upd s)) =
        update_conversation_history (effective_user_id upd) ''user'' (msg_text upd)
          (conversation_history s)
    \<and> get_history (conversation_history (snd (handle_message w upd s))) (effective_user_id upd) =
        slice_last MAX_HISTORY
          (get_history (conversation_history s) (effective_user_id upd)
             @ [(''user'', msg_text upd)])
    \<and> last (get_history (conversation_history (snd (handle_message w upd s)))
          (effective_user_id upd)) = (''user'', msg_text upd)
    \<and> sent (snd (handle_message w upd s)) = sent s @ [Reply text_apology]"
  using assms
  by (simp add: handle_message_completion_failure [OF assms] process_message_eq
        get_history_update_same slice_last_snoc MAX_HISTORY_def)

theorem completion_failure_keeps_user_turn_witness:
  "chat_completions_create (fixed_world None (Inl CompletionError) (Inr ''Hello''))
     (process_request (fixed_world None (Inl CompletionError) (Inr ''Hello''))
        (effective_user_id (sample_update 1 ''Hello'')) (msg_text (sample_update 1 ''Hello''))
        initial_state) = Inl CompletionError
   \<and> get_history
        (conversation_history
           (snd (handle_message (fixed_world None (Inl CompletionError) (Inr ''Hello''))
              (sample_update 1 ''Hello'') initial_state))) 1 = [(''user'', ''Hello'')]
   \<and> sent (snd (handle_message (fixed_world None (Inl CompletionError) (Inr ''Hello''))
              (sample_update 1 ''Hello'') initial_state)) = [Reply text_apology]"
proof -
  have failing: "chat_completions_create (fixed_world None (Inl CompletionError) (Inr ''Hello''))
     (process_request (fixed_world None (Inl CompletionError) (Inr ''Hello''))
        (effective_user_id (sample_update 1 ''Hello'')) (msg_text (sample_update 1 ''Hello''))
        initial_state) = Inl CompletionError"
    by (simp add: fixed_world_def)
  from completion_failure_keeps_user_turn [OF failing] failing show ?thesis
    by (simp add: sample_update_def initial_state_def get_history_empty
          get_history_update_same slice_last_def MAX_HISTORY_def)
qed

section \<open>Roles of the stored turns\<close>

lemma run_one_text:
  "conversation_history
     (run [(fixed_world None (Inr ''Hi there!'') (Inr ''Hello''), TextMessage,
            sample_update 1 ''Hello'')] initial_state) =
   [1 \<mapsto> [(''user'', ''Hello''), (''assistant'', ''Hi there!'')]]"
  by (simp add: dispatch_def handle_message_history process_message_eq
        update_conversation_history_eq get_history_simps slice_last_def MAX_HISTORY_def
        fixed_world_def sample_update_def initial_state_def)

text \<open>
  C8. In every state the bot reaches from the empty store, by any sequence of handler
  runs in any worlds, every turn stored for any user has the role \<^verbatim>\<open>user\<close> or
  \<^verbatim>\<open>assistant\<close>, never \<^verbatim>\<open>system\<close>: the system prompt exists only in the list
  built for the completion API.
\<close>

theorem stored_turns_are_user_or_assistant:
  assumes "t \<in> set (get_history (conversation_history (run evs initial_state)) u)"
  shows "(fst t = ''user'' \<or> fst t = ''assistant'') \<and> fst t \<noteq> ''system''"
proof -
  from roles_ok_run [of evs] assms have "fst t = ''user'' \<or> fst t = ''assistant''"
    unfolding roles_ok_def by blast
  then show ?thesis by auto
qed

theorem stored_turns_are_user_or_assistant_witness:
  "(''assistant'', ''Hi there!'')
     \<in> set (get_history
          (conversation_history
             (run [(fixed_world None (Inr ''Hi there!'') (Inr ''Hello''), TextMessage,
                    sample_update 1 ''Hello'')] initial_state)) 1)
   \<and> fst (''assistant'', ''Hi there!'') \<noteq> ''system''"
  using stored_turns_are_user_or_assistant
    [of "(''assistant'', ''Hi there!'')"
       "[(fixed_world None (Inr ''Hi there!'') (Inr ''Hello''), TextMessage,
          sample_update 1 ''Hello'')]" 1]
  unfolding run_one_text by (simp add: get_history_simps)

section \<open>Clearing a history\<close>

text \<open>
  C9. After a clear the user's history reads as empty, whatever it held, and a second
  clear changes nothing: for the store operation and for the \<^verbatim>\<open>/clear\<close> handler
  (\<^verbatim>\<open>/start\<close> clears in the same way).
\<close>

theorem clear_then_get_empty:
  "get_history (clear_user u h) u = []
   \<and> clear_user u (clear_user u h) = clear_user u h
   \<and> get_history (conversation_history (snd (clear_history w upd s))) (effective_user_id upd) = []
   \<and> conversation_history (snd (clear_history w upd (snd (clear_history w upd s)))) =
       conversation_history (snd (clear_history w upd s))
   \<and> get_history (conversation_history (snd (start w upd s))) (effective_user_id upd) = []"
  by (simp add: clear_history_history start_history clear_user_eq get_history_simps)

section \<open>Other users\<close>

text \<open>
  C10. Whatever is done for user \<open>u\<close> (an append, a clear, \<^verbatim>\<open>process_message\<close>
  with its two appends, \<^verbatim>\<open>/start\<close>, \<^verbatim>\<open>/clear\<close>, a text message), the entry of
  every other user \<open>v\<close> in the store is left as it was.
\<close>

theorem other_users_untouched:
  assumes "v \<noteq> u" and "effective_user_id upd = u"
  shows "update_conversation_history u r c h v = h v
    \<and> clear_user u h v = h v
    \<and> conversation_history (snd (process_message w u m s)) v = conversation_history s v
    \<and> conversation_history (snd (start w upd s)) v = conversation_history s v
    \<and> conversation_history (snd (clear_history w upd s)) v = conversation_history s v
    \<and> conversation_history (snd (handle_message w upd s)) v = conversation_history s v"
  using assms
  by (simp add: update_conversation_history_eq clear_user_eq process_message_frame
        start_history clear_history_history handle_message_history)

theorem other_users_untouched_witness:
  "(2::int) \<noteq> 1 \<and> effective_user_id (sample_update 1 ''Hello'') = 1
   \<and> conversation_history
        (snd (process_message (fixed_world None (Inr ''Hi there!'') (Inr ''Hello'')) 1 ''Hello''
           (initial_state\<lparr>conversation_history := [2 \<mapsto> [(''user'', ''earlier'')]]\<rparr>))) 2
       = Some [(''user'', ''earlier'')]"
  using other_users_untouched [of 2 1 "sample_update 1 ''Hello''" "''user''" "''Hello''"
      "[2 \<mapsto> [(''user'', ''earlier'')]]"
      "fixed_world None (Inr ''Hi there!'') (Inr ''Hello'')" "''Hello''"
      "initial_state\<lparr>conversation_history := [2 \<mapsto> [(''user'', ''earlier'')]]\<rparr>"]
  by (simp add: sample_update_def)

end
